theory Spec2Isabelle
  imports Main "HOL-Library.Word" "HOL-Library.Sublist"
begin

unbundle bit_operations_syntax

section \<open>Bytes and text\<close>

text \<open>
  Python \<open>bytes\<close> (the secret, the request body, a digest) are lists of 8-bit words.
  Python \<open>str\<close> values that the handler sees (header values, log messages, captured
  process output) are lists of \<open>char\<close>: a header value reaches the handler decoded as
  Latin-1, one character per byte, so every code point is below 256, which is exactly the
  range of \<open>char\<close>.
\<close>

type_synonym byte = "8 word"
type_synonym bytes = "byte list"
type_synonym u32 = "32 word"

definition bytes_of :: "string \<Rightarrow> bytes" where
  \<comment> \<open>the bytes literal \<open>b'...'\<close> of an ASCII text\<close>
  "bytes_of s = map of_char s"

section \<open>SHA-1 and HMAC, as \<open>hashlib\<close> and \<open>hmac\<close> compute them\<close>

definition rotl :: "nat \<Rightarrow> u32 \<Rightarrow> u32" where
  "rotl n x = push_bit n x OR drop_bit (32 - n) x"

definition be32 :: "bytes \<Rightarrow> u32" where
  \<comment> \<open>big-endian reading of four bytes\<close>
  "be32 bs = foldl (\<lambda>acc b. push_bit 8 acc OR ucast b) 0 bs"

definition u32_bytes :: "u32 \<Rightarrow> bytes" where
  "u32_bytes x = [ucast (drop_bit 24 x), ucast (drop_bit 16 x), ucast (drop_bit 8 x), ucast x]"

definition be64_bytes :: "64 word \<Rightarrow> bytes" where
  "be64_bytes x = map (\<lambda>i. ucast (drop_bit (8 * (7 - i)) x)) [0..<8]"

definition sha1_pad :: "bytes \<Rightarrow> bytes" where
  \<comment> \<open>a 1 bit, zeros up to 56 modulo 64 bytes, then the bit length on 64 bits\<close>
  "sha1_pad m = m @ [0x80] @ replicate ((119 - length m mod 64) mod 64) 0
                  @ be64_bytes (8 * of_nat (length m))"

fun chunks :: "nat \<Rightarrow> 'a list \<Rightarrow> 'a list list" where
  "chunks n [] = []"
| "chunks n xs = (if n = 0 then [xs] else take n xs # chunks n (drop n xs))"

definition sha1_f :: "nat \<Rightarrow> u32 \<Rightarrow> u32 \<Rightarrow> u32 \<Rightarrow> u32" where
  "sha1_f t b c d =
     (if t < 20 then (b AND c) OR (NOT b AND d)
      else if t < 40 then b XOR c XOR d
      else if t < 60 then (b AND c) OR (b AND d) OR (c AND d)
      else b XOR c XOR d)"

definition sha1_k :: "nat \<Rightarrow> u32" where
  "sha1_k t =
     (if t < 20 then 0x5A827999
      else if t < 40 then 0x6ED9EBA1
      else if t < 60 then 0x8F1BBCDC
      else 0xCA62C1D6)"

type_synonym sha1_state = "u32 \<times> u32 \<times> u32 \<times> u32 \<times> u32"

text \<open>
  The rounds keep a window of sixteen schedule words: round \<open>t\<close> consumes the first
  and appends word \<open>t + 16\<close>.
\<close>

fun sha1_rounds :: "nat \<Rightarrow> nat \<Rightarrow> u32 list \<Rightarrow> sha1_state \<Rightarrow> sha1_state" where
  "sha1_rounds 0 t ws s = s"
| "sha1_rounds (Suc n) t ws (a, b, c, d, e) =
     sha1_rounds n (Suc t)
       (tl ws @ [rotl 1 (ws ! 13 XOR ws ! 8 XOR ws ! 2 XOR ws ! 0)])
       (rotl 5 a + sha1_f t b c d + e + sha1_k t + ws ! 0, a, rotl 30 b, c, d)"

definition sha1_block :: "sha1_state \<Rightarrow> bytes \<Rightarrow> sha1_state" where
  "sha1_block h blk =
     (case h of (h0, h1, h2, h3, h4) \<Rightarrow>
      case sha1_rounds 80 0 (map be32 (chunks 4 blk)) h of (a, b, c, d, e) \<Rightarrow>
        (h0 + a, h1 + b, h2 + c, h3 + d, h4 + e))"

definition sha1 :: "bytes \<Rightarrow> bytes" where
  "sha1 m =
     (case foldl sha1_block (0x67452301, 0xEFCDAB89, 0x98BADCFE, 0x10325476, 0xC3D2E1F0)
             (chunks 64 (sha1_pad m)) of
        (h0, h1, h2, h3, h4) \<Rightarrow> concat (map u32_bytes [h0, h1, h2, h3, h4]))"

definition hmac_sha1 :: "bytes \<Rightarrow> bytes \<Rightarrow> bytes" where
  \<comment> \<open>\<open>hmac.new(key, msg=msg, digestmod='sha1').digest()\<close>\<close>
  "hmac_sha1 key msg =
     (let k0 = (if length key > 64 then sha1 key else key);
          k = k0 @ replicate (64 - length k0) 0
      in sha1 (map (\<lambda>b. b XOR 0x5C) k @ sha1 (map (\<lambda>b. b XOR 0x36) k @ msg)))"

definition hex_digit :: "nat \<Rightarrow> char" where
  "hex_digit n = ''0123456789abcdef'' ! (n mod 16)"

definition hexlify :: "bytes \<Rightarrow> string" where
  "hexlify bs = concat (map (\<lambda>b. [hex_digit (unat b div 16), hex_digit (unat b mod 16)]) bs)"

definition hexdigest :: "bytes \<Rightarrow> bytes \<Rightarrow> string" where
  \<comment> \<open>\<open>hmac.new(key, msg=msg, digestmod='sha1').hexdigest()\<close>\<close>
  "hexdigest key msg = hexlify (hmac_sha1 key msg)"

section \<open>The library calls of the handler\<close>

datatype exn = ValueError | TypeError | OSError

text \<open>\<open>s.split(c)\<close> for a one-character separator: never empty, one more piece than separators.\<close>

fun split_on :: "char \<Rightarrow> string \<Rightarrow> string list" where
  "split_on c [] = [[]]"
| "split_on c (x # xs) =
     (if x = c then [] # split_on c xs
      else (case split_on c xs of [] \<Rightarrow> [[x]] | p # ps \<Rightarrow> (x # p) # ps))"

text \<open>The tuple assignment \<open>a, b = pieces\<close>: ValueError unless there are exactly two pieces.\<close>

fun unpack2 :: "'a list \<Rightarrow> exn + 'a \<times> 'a" where
  "unpack2 [a, b] = Inr (a, b)"
| "unpack2 _ = Inl ValueError"

definition is_ascii :: "string \<Rightarrow> bool" where
  "is_ascii s = list_all (\<lambda>c. (of_char c :: nat) < 128) s"

text \<open>
  \<open>hmac.compare_digest\<close> on two \<open>str\<close> arguments: TypeError when either holds a
  non-ASCII character, otherwise whether they are equal. Its running time is not part of
  the model.
\<close>

definition compare_digest :: "string \<Rightarrow> string \<Rightarrow> exn + bool" where
  "compare_digest a b = (if is_ascii a \<and> is_ascii b then Inr (a = b) else Inl TypeError)"

section \<open>The handler\<close>

datatype level = INFO | ERROR

datatype event = Log level string | Run "string list"

record completed_process =
  returncode :: int
  stdout :: string
  stderr :: string

record request =
  headers :: "string \<rightharpoonup> string"
  mimetype :: string
  body :: bytes

text \<open>
  \<open>headers\<close> is \<open>request.headers.get\<close>: the framework's lookup by header name (which
  it matches without regard to case). \<open>mimetype\<close> is the content type of the request
  without its parameters, in lowercase, and \<open>body\<close> the bytes the client sent.

  \<open>data\<close> is \<open>request.data\<close>, which the handler hashes: the body, unless the framework
  parses it as a form. For the form content types it has read the body into
  \<open>request.form\<close> and \<open>request.data\<close> is empty.
\<close>

definition form_mimetypes :: "string list" where
  "form_mimetypes =
     [''application/x-www-form-urlencoded'', ''multipart/form-data'',
      ''application/x-url-encoded'']"

definition data :: "request \<Rightarrow> bytes" where
  "data request = (if mimetype request \<in> set form_mimetypes then [] else body request)"

text \<open>
  \<open>abort(code)\<close> ends the handler with an HTTP error response of that status; an
  exception that nothing catches leaves the handler as \<open>Uncaught\<close>.
\<close>

datatype outcome = Response string nat | Abort nat | Uncaught exn

definition SECRET :: bytes where
  "SECRET = bytes_of ''your_webhook_secret''"

definition git_pull_cmd :: "string list" where
  "git_pull_cmd = [''/usr/bin/git'', ''-C'', ''/home/ubuntu/smartqna-be'', ''pull'']"

definition restart_cmd :: "string list" where
  "restart_cmd = [''sudo'', ''/bin/systemctl'', ''restart'', ''gunicorn'']"

text \<open>
  \<open>run\<close> is \<open>subprocess.run\<close> with captured text output: it returns the completed
  process or raises. \<open>deploy t0 run\<close> is the handler from the pull onwards (what it does
  once the signature has been checked), \<open>t0\<close> being the trace so far.
\<close>

definition deploy ::
  "event list \<Rightarrow> (string list \<Rightarrow> exn + completed_process) \<Rightarrow> event list \<times> outcome" where
  "deploy t0 run =
     (let t1 = t0 @ [Log INFO ''Attempting to pull the latest code...'', Run git_pull_cmd] in
      case run git_pull_cmd of
        Inl e \<Rightarrow> (t1, Uncaught e)
      | Inr git_pull \<Rightarrow>
         (let t2 = t1 @ [Log INFO (''Git Pull Output:'' @ [CHR 0x0A] @ stdout git_pull)] in
          if returncode git_pull \<noteq> 0 then
            (t2 @ [Log ERROR (''Error during git pull: '' @ stderr git_pull)], Abort 500)
          else
           (let t3 = t2 @ [Log INFO ''Attempting to restart the Gunicorn service...'',
                           Run restart_cmd] in
            case run restart_cmd of
              Inl e \<Rightarrow> (t3, Uncaught e)
            | Inr restart_service \<Rightarrow>
               (let t4 = t3 @ [Log INFO (''Service Restart Output:'' @ [CHR 0x0A]
                                          @ stdout restart_service)] in
                if returncode restart_service \<noteq> 0 then
                  (t4 @ [Log ERROR (''Error restarting Gunicorn service: ''
                                    @ stderr restart_service)], Abort 500)
                else
                  (t4 @ [Log INFO ''Webhook executed successfully.''],
                   Response ''OK'' 200)))))"

text \<open>
  \<open>webhook secret request run\<close> is one call of the handler. The result is the trace of
  log records and external commands, in order, and how the handler ended.
\<close>

definition webhook ::
  "bytes \<Rightarrow> request \<Rightarrow> (string list \<Rightarrow> exn + completed_process) \<Rightarrow> event list \<times> outcome" where
  "webhook secret request run =
     (let t0 = [Log INFO ''Received a request on /webhook''] in
      case headers request ''X-Hub-Signature'' of
        None \<Rightarrow>
          (t0 @ [Log ERROR ''Error: No signature found in the request headers.''], Abort 403)
      | Some signature \<Rightarrow>
         (case unpack2 (split_on CHR ''='' signature) of
            Inl e \<Rightarrow> (t0, Uncaught e)
          | Inr (sha_name, signature) \<Rightarrow>
              if sha_name \<noteq> ''sha1'' then
                (t0 @ [Log ERROR (''Error: Unsupported SHA type '' @ sha_name @ ''.'')], Abort 501)
              else
               (case compare_digest (hexdigest secret (data request)) signature of
                  Inl e \<Rightarrow> (t0, Uncaught e)
                | Inr matches \<Rightarrow>
                    if \<not> matches then
                      (t0 @ [Log ERROR ''Error: Signature mismatch.''], Abort 403)
                    else deploy t0 run)))"

text \<open>The external commands of a trace, in the order they were started.\<close>

fun actions_invoked :: "event list \<Rightarrow> string list list" where
  "actions_invoked [] = []"
| "actions_invoked (Log l m # es) = actions_invoked es"
| "actions_invoked (Run c # es) = c # actions_invoked es"

fun messages :: "event list \<Rightarrow> string list" where
  "messages [] = []"
| "messages (Log l m # es) = m # messages es"
| "messages (Run c # es) = messages es"

text \<open>
  The HTTP status the client sees: the code of the response or of the abort; the framework
  answers an exception that nothing catches with 500.
\<close>

definition status :: "outcome \<Rightarrow> nat" where
  "status out =
     (case out of Response content code \<Rightarrow> code | Abort code \<Rightarrow> code | Uncaught e \<Rightarrow> 500)"

section \<open>Vocabulary of the properties\<close>

text \<open>The request carries the signature that the secret gives its body.\<close>

definition signature_matches :: "bytes \<Rightarrow> request \<Rightarrow> bool" where
  "signature_matches secret request \<longleftrightarrow>
     headers request ''X-Hub-Signature'' = Some (''sha1='' @ hexdigest secret (data request))"

text \<open>Lowering of one character, for the ASCII letters (all that a hex digest can hold).\<close>

definition ascii_lower :: "char \<Rightarrow> char" where
  "ascii_lower c =
     (case map_of (zip ''ABCDEFGHIJKLMNOPQRSTUVWXYZ'' ''abcdefghijklmnopqrstuvwxyz'') c of
        None \<Rightarrow> c
      | Some l \<Rightarrow> l)"

text \<open>
  The messages the specification allows in the log: the fixed texts (receipt, missing
  header, mismatch, progress), the algorithm tag of the request (its signature header up
  to the first \<open>=\<close>), and the captured output of the two external commands.
\<close>

definition fixed_messages :: "string list" where
  "fixed_messages =
     [''Received a request on /webhook'',
      ''Error: No signature found in the request headers.'',
      ''Error: Signature mismatch.'',
      ''Attempting to pull the latest code...'',
      ''Attempting to restart the Gunicorn service...'',
      ''Webhook executed successfully.'']"

definition allowed_message ::
  "request \<Rightarrow> (string list \<Rightarrow> exn + completed_process) \<Rightarrow> string \<Rightarrow> bool" where
  "allowed_message request run m \<longleftrightarrow>
     m \<in> set fixed_messages
     \<or> (case headers request ''X-Hub-Signature'' of
           None \<Rightarrow> False
         | Some h \<Rightarrow>
             m = ''Error: Unsupported SHA type '' @ takeWhile (\<lambda>c. c \<noteq> CHR ''='') h @ ''.'')
     \<or> (case run git_pull_cmd of
           Inl e \<Rightarrow> False
         | Inr p \<Rightarrow> m = ''Git Pull Output:'' @ [CHR 0x0A] @ stdout p
                     \<or> m = ''Error during git pull: '' @ stderr p)
     \<or> (case run restart_cmd of
           Inl e \<Rightarrow> False
         | Inr q \<Rightarrow> m = ''Service Restart Output:'' @ [CHR 0x0A] @ stdout q
                     \<or> m = ''Error restarting Gunicorn service: '' @ stderr q)"





text \<open>Requests and command results used as examples.\<close>

definition signed_request :: "string \<Rightarrow> bytes \<Rightarrow> request" where
  "signed_request sig payload =
     \<lparr>headers = [''X-Hub-Signature'' \<mapsto> sig], mimetype = ''application/json'',
      body = payload\<rparr>"

definition signed_form_request :: "string \<Rightarrow> bytes \<Rightarrow> request" where
  "signed_form_request sig payload =
     \<lparr>headers = [''X-Hub-Signature'' \<mapsto> sig],
      mimetype = ''application/x-www-form-urlencoded'', body = payload\<rparr>"

definition run_ok :: "string list \<Rightarrow> exn + completed_process" where
  "run_ok cmd = Inr \<lparr>returncode = 0, stdout = ''done'', stderr = ''''\<rparr>"

definition run_pull_fails :: "string list \<Rightarrow> exn + completed_process" where
  "run_pull_fails cmd =
     (if cmd = git_pull_cmd then Inr \<lparr>returncode = 1, stdout = '''', stderr = ''fatal''\<rparr>
      else Inr \<lparr>returncode = 0, stdout = ''done'', stderr = ''''\<rparr>)"

text \<open>
  A 32-bit word written with its value below \<open>2 ^ 32\<close>: the identity, used to keep
  numerals small while a digest is evaluated.
\<close>

definition norm32 :: "u32 \<Rightarrow> u32" where
  "norm32 x = word_of_int (uint x)"

section \<open>The library calls\<close>

lemma data_json [simp]:
  "data \<lparr>headers = h, mimetype = ''application/json'', body = b\<rparr> = b"
  by (simp add: data_def form_mimetypes_def)

lemma data_form [simp]:
  "data \<lparr>headers = h, mimetype = ''application/x-www-form-urlencoded'', body = b\<rparr> = []"
  by (simp add: data_def form_mimetypes_def)

lemma split_on_nonempty: "split_on c s \<noteq> []"
  by (induction s) (auto split: list.splits)

lemma split_on_absent: "c \<notin> set s \<Longrightarrow> split_on c s = [s]"
  by (induction s) auto

lemma split_on_append: "c \<notin> set a \<Longrightarrow> split_on c (a @ c # d) = a # split_on c d"
  by (induction a) auto

lemma split_on_once: "c \<notin> set a \<Longrightarrow> c \<notin> set d \<Longrightarrow> split_on c (a @ c # d) = [a, d]"
  by (simp add: split_on_append split_on_absent)

lemma length_split_on: "length (split_on c s) = Suc (count_list s c)"
  by (induction s) (auto split: list.splits simp: split_on_nonempty)

lemma split_on_two:
  "split_on c s = [a, d] \<Longrightarrow> s = a @ c # d \<and> c \<notin> set a \<and> c \<notin> set d"
proof (induction s arbitrary: a)
  case Nil
  then show ?case by simp
next
  case (Cons x xs)
  show ?case
  proof (cases "x = c")
    case True
    with Cons.prems have "a = []" and xs: "split_on c xs = [d]" by auto
    have "count_list xs c = 0" using length_split_on [of c xs] xs by simp
    then have "c \<notin> set xs" by (simp add: count_list_0_iff)
    with split_on_absent [of c xs] xs True \<open>a = []\<close> show ?thesis by simp
  next
    case False
    with Cons.prems obtain p where p: "split_on c xs = [p, d]" and a: "a = x # p"
      by (auto split: list.splits)
    from Cons.IH [OF p] a False show ?thesis by simp
  qed
qed

lemma unpack2_error: "unpack2 xs = Inl e \<longleftrightarrow> e = ValueError \<and> length xs \<noteq> 2"
  by (cases xs rule: unpack2.cases) auto

lemma unpack2_split_error:
  "count_list s c \<noteq> 1 \<Longrightarrow> unpack2 (split_on c s) = Inl ValueError"
  by (simp add: unpack2_error length_split_on)

lemma unpack2_ok: "unpack2 xs = Inr (a, d) \<longleftrightarrow> xs = [a, d]"
  by (cases xs rule: unpack2.cases) auto

lemma hex_digit_in: "hex_digit n \<in> set ''0123456789abcdef''"
  unfolding hex_digit_def by (rule nth_mem) simp

lemma hexlify_chars: "set (hexlify bs) \<subseteq> set ''0123456789abcdef''"
  using hex_digit_in by (auto simp: hexlify_def)

lemma hexdigest_chars: "set (hexdigest k m) \<subseteq> set ''0123456789abcdef''"
  unfolding hexdigest_def by (rule hexlify_chars)

lemma hexdigest_ascii: "is_ascii (hexdigest k m)"
  using hexdigest_chars [of k m] by (auto simp: is_ascii_def list_all_iff)

lemma hexdigest_no_eq: "CHR ''='' \<notin> set (hexdigest k m)"
  using hexdigest_chars [of k m] by auto

lemma length_sha1: "length (sha1 m) = 20"
  by (simp add: sha1_def u32_bytes_def split: prod.splits)

lemma length_hexlify: "length (hexlify bs) = 2 * length bs"
  by (induction bs) (simp_all add: hexlify_def)

lemma length_hexdigest: "length (hexdigest k m) = 40"
  by (simp add: hexdigest_def length_hexlify hmac_sha1_def Let_def length_sha1)

lemma compare_own_digest: "compare_digest (hexdigest S m) (hexdigest S m) = Inr True"
  by (simp add: compare_digest_def hexdigest_ascii)

section \<open>The branches of the handler\<close>

lemma webhook_missing:
  "headers r ''X-Hub-Signature'' = None \<Longrightarrow>
   webhook S r run = ([Log INFO ''Received a request on /webhook'',
                       Log ERROR ''Error: No signature found in the request headers.''], Abort 403)"
  by (simp add: webhook_def)

lemma webhook_malformed:
  "headers r ''X-Hub-Signature'' = Some h \<Longrightarrow> count_list h CHR ''='' \<noteq> 1 \<Longrightarrow>
   webhook S r run = ([Log INFO ''Received a request on /webhook''], Uncaught ValueError)"
  by (simp add: webhook_def unpack2_split_error)

lemma webhook_unsupported:
  "headers r ''X-Hub-Signature'' = Some h \<Longrightarrow> split_on CHR ''='' h = [tag, d] \<Longrightarrow>
   tag \<noteq> ''sha1'' \<Longrightarrow>
   webhook S r run = ([Log INFO ''Received a request on /webhook'',
                       Log ERROR (''Error: Unsupported SHA type '' @ tag @ ''.'')], Abort 501)"
  by (simp add: webhook_def)

lemma webhook_non_ascii:
  "headers r ''X-Hub-Signature'' = Some h \<Longrightarrow> split_on CHR ''='' h = [''sha1'', d] \<Longrightarrow>
   \<not> is_ascii d \<Longrightarrow>
   webhook S r run = ([Log INFO ''Received a request on /webhook''], Uncaught TypeError)"
  by (simp add: webhook_def compare_digest_def)

lemma webhook_mismatch:
  "headers r ''X-Hub-Signature'' = Some h \<Longrightarrow> split_on CHR ''='' h = [''sha1'', d] \<Longrightarrow>
   is_ascii d \<Longrightarrow> d \<noteq> hexdigest S (data r) \<Longrightarrow>
   webhook S r run = ([Log INFO ''Received a request on /webhook'',
                       Log ERROR ''Error: Signature mismatch.''], Abort 403)"
  by (auto simp add: webhook_def compare_digest_def hexdigest_ascii)

lemma signature_matches_iff:
  "signature_matches S r \<longleftrightarrow>
     (\<exists>h. headers r ''X-Hub-Signature'' = Some h \<and>
          split_on CHR ''='' h = [''sha1'', hexdigest S (data r)])"
proof
  assume "signature_matches S r"
  then show "\<exists>h. headers r ''X-Hub-Signature'' = Some h \<and>
          split_on CHR ''='' h = [''sha1'', hexdigest S (data r)]"
    using split_on_once [of "CHR ''=''" "''sha1''" "hexdigest S (data r)"]
    by (simp add: signature_matches_def hexdigest_no_eq)
next
  assume "\<exists>h. headers r ''X-Hub-Signature'' = Some h \<and>
          split_on CHR ''='' h = [''sha1'', hexdigest S (data r)]"
  then obtain h where h: "headers r ''X-Hub-Signature'' = Some h"
    and s: "split_on CHR ''='' h = [''sha1'', hexdigest S (data r)]" by blast
  from split_on_two [OF s] h show "signature_matches S r"
    by (simp add: signature_matches_def)
qed

lemma webhook_verified:
  "signature_matches S r \<Longrightarrow>
   webhook S r run = deploy [Log INFO ''Received a request on /webhook''] run"
  unfolding signature_matches_iff
  by (auto simp add: webhook_def compare_own_digest)

text \<open>
  Every call either continues to the deployment, and then the signature matched, or ends
  with no external command started.
\<close>

lemma webhook_cases:
  "webhook S r run = deploy [Log INFO ''Received a request on /webhook''] run
     \<and> signature_matches S r
   \<or> actions_invoked (fst (webhook S r run)) = [] \<and> \<not> signature_matches S r
      \<and> snd (webhook S r run) \<in> {Abort 403, Abort 501, Uncaught ValueError, Uncaught TypeError}"
proof (cases "signature_matches S r")
  case True
  then show ?thesis by (simp add: webhook_verified)
next
  case False
  show ?thesis
  proof (cases "headers r ''X-Hub-Signature''")
    case None
    with False show ?thesis by (simp add: webhook_missing)
  next
    case (Some h)
    show ?thesis
    proof (cases "unpack2 (split_on CHR ''='' h)")
      case (Inl e)
      then have "e = ValueError" by (simp add: unpack2_error)
      with Inl Some False show ?thesis by (simp add: webhook_def)
    next
      case (Inr p)
      then obtain tag d where s: "split_on CHR ''='' h = [tag, d]"
        by (cases p) (simp add: unpack2_ok)
      show ?thesis
      proof (cases "tag = ''sha1''")
        case tag: True
        have ne: "d \<noteq> hexdigest S (data r)"
          using False Some s tag by (auto simp: signature_matches_iff)
        show ?thesis
        proof (cases "is_ascii d")
          case True
          with webhook_mismatch [OF Some s [unfolded tag] True ne] False show ?thesis by simp
        next
          case asc: False
          with webhook_non_ascii [OF Some s [unfolded tag] asc] False show ?thesis by simp
        qed
      next
        case ntag: False
        with webhook_unsupported [OF Some s ntag] False show ?thesis by simp
      qed
    qed
  qed
qed

lemma deploy_not_rejection:
  "snd (deploy t run) \<noteq> Abort 403 \<and> snd (deploy t run) \<noteq> Abort 501"
  by (simp add: deploy_def Let_def split: sum.splits)

lemma deploy_starts_pull: "git_pull_cmd \<in> set (actions_invoked (fst (deploy [Log l m] run)))"
  by (simp add: deploy_def Let_def split: sum.splits)

lemma deploy_no_mismatch_log:
  "Log ERROR ''Error: Signature mismatch.''
     \<notin> set (fst (deploy [Log INFO ''Received a request on /webhook''] run))"
  by (simp add: deploy_def Let_def split: sum.splits)

lemma deploy_success:
  "run git_pull_cmd = Inr p \<Longrightarrow> returncode p = 0 \<Longrightarrow> run restart_cmd = Inr q \<Longrightarrow>
   returncode q = 0 \<Longrightarrow>
   snd (deploy [Log l m] run) = Response ''OK'' 200 \<and>
   actions_invoked (fst (deploy [Log l m] run)) = [git_pull_cmd, restart_cmd]"
  by (simp add: deploy_def)

lemma deploy_pull_failed:
  "run git_pull_cmd = Inr p \<Longrightarrow> returncode p \<noteq> 0 \<Longrightarrow>
   snd (deploy [Log l m] run) = Abort 500 \<and>
   actions_invoked (fst (deploy [Log l m] run)) = [git_pull_cmd] \<and>
   Run restart_cmd \<notin> set (fst (deploy [Log l m] run))"
  by (simp add: deploy_def git_pull_cmd_def restart_cmd_def)

section \<open>One digest, evaluated\<close>

text \<open>
  The signature of the body \<open>hello\<close> under the secret \<open>s3cr3t\<close>, computed step by step:
  the four compression calls of the HMAC first, then the two hashes.
\<close>

lemma norm32_id: "norm32 x = x"
  by (simp add: norm32_def)

lemma norm32_numeral: "norm32 (numeral k) = word_of_int (numeral k mod 4294967296)"
  unfolding norm32_def by (simp only: uint_numeral) simp

lemma norm32_0: "norm32 0 = 0 \<and> norm32 1 = 1"
  by (simp add: norm32_id)

lemma sha1_rounds_numeral:
  "sha1_rounds (numeral k) t ws (a, b, c, d, e) =
     sha1_rounds (pred_numeral k) (Suc t)
       (tl ws @ [norm32 (rotl 1 (ws ! 13 XOR ws ! 8 XOR ws ! 2 XOR ws ! 0))])
       (norm32 (rotl 5 a + sha1_f t b c d + e + sha1_k t + ws ! 0), a, norm32 (rotl 30 b), c, d)"
  by (simp add: numeral_eq_Suc norm32_id)

lemma sha1_rounds_1:
  "sha1_rounds (Suc 0) t ws (a, b, c, d, e) =
       (norm32 (rotl 5 a + sha1_f t b c d + e + sha1_k t + ws ! 0), a, norm32 (rotl 30 b), c, d)"
  by (simp add: norm32_id)

lemmas sha1_eval =
  rotl_def sha1_f_def sha1_k_def norm32_numeral norm32_0 sha1_rounds_numeral sha1_rounds_1

lemma replicate_numeral_Cons: "replicate (numeral k) x = x # replicate (pred_numeral k) x"
  by (simp add: numeral_eq_Suc)

lemma bytes_of_s3cr3t: "bytes_of ''s3cr3t'' = [0x73, 0x33, 0x63, 0x72, 0x33, 0x74]"
  by (simp add: bytes_of_def)

lemma bytes_of_hello: "bytes_of ''hello'' = [0x68, 0x65, 0x6C, 0x6C, 0x6F]"
  by (simp add: bytes_of_def)

lemma hmac_inner_key_block:
  "sha1_block (0x67452301, 0xEFCDAB89, 0x98BADCFE, 0x10325476, 0xC3D2E1F0)
     [0x45, 0x05, 0x55, 0x44, 0x05, 0x42, 0x36, 0x36, 0x36, 0x36, 0x36, 0x36, 0x36, 0x36, 0x36, 0x36,
      0x36, 0x36, 0x36, 0x36, 0x36, 0x36, 0x36, 0x36, 0x36, 0x36, 0x36, 0x36, 0x36, 0x36, 0x36, 0x36,
      0x36, 0x36, 0x36, 0x36, 0x36, 0x36, 0x36, 0x36, 0x36, 0x36, 0x36, 0x36, 0x36, 0x36, 0x36, 0x36,
      0x36, 0x36, 0x36, 0x36, 0x36, 0x36, 0x36, 0x36, 0x36, 0x36, 0x36, 0x36, 0x36, 0x36, 0x36, 0x36] =
   (0xFC6CE11C, 0xCCE0C679, 0x646F2FFF, 0x3D7746FA, 0x28F259A5)"
  by (simp add: sha1_block_def be32_def sha1_eval del: sha1_rounds.simps)

lemma hmac_inner_msg_block:
  "sha1_block (0xFC6CE11C, 0xCCE0C679, 0x646F2FFF, 0x3D7746FA, 0x28F259A5)
     [0x68, 0x65, 0x6C, 0x6C, 0x6F, 0x80, 0x00, 0x00, 0x00, 0x00, 0x00, 0x00, 0x00, 0x00, 0x00, 0x00,
      0x00, 0x00, 0x00, 0x00, 0x00, 0x00, 0x00, 0x00, 0x00, 0x00, 0x00, 0x00, 0x00, 0x00, 0x00, 0x00,
      0x00, 0x00, 0x00, 0x00, 0x00, 0x00, 0x00, 0x00, 0x00, 0x00, 0x00, 0x00, 0x00, 0x00, 0x00, 0x00,
      0x00, 0x00, 0x00, 0x00, 0x00, 0x00, 0x00, 0x00, 0x00, 0x00, 0x00, 0x00, 0x00, 0x00, 0x02, 0x28] =
   (0xCDB7C6F4, 0x25CD51C6, 0x7C16E90B, 0xED365A00, 0x8C257E03)"
  by (simp add: sha1_block_def be32_def sha1_eval del: sha1_rounds.simps)

lemma hmac_outer_key_block:
  "sha1_block (0x67452301, 0xEFCDAB89, 0x98BADCFE, 0x10325476, 0xC3D2E1F0)
     [0x2F, 0x6F, 0x3F, 0x2E, 0x6F, 0x28, 0x5C, 0x5C, 0x5C, 0x5C, 0x5C, 0x5C, 0x5C, 0x5C, 0x5C, 0x5C,
      0x5C, 0x5C, 0x5C, 0x5C, 0x5C, 0x5C, 0x5C, 0x5C, 0x5C, 0x5C, 0x5C, 0x5C, 0x5C, 0x5C, 0x5C, 0x5C,
      0x5C, 0x5C, 0x5C, 0x5C, 0x5C, 0x5C, 0x5C, 0x5C, 0x5C, 0x5C, 0x5C, 0x5C, 0x5C, 0x5C, 0x5C, 0x5C,
      0x5C, 0x5C, 0x5C, 0x5C, 0x5C, 0x5C, 0x5C, 0x5C, 0x5C, 0x5C, 0x5C, 0x5C, 0x5C, 0x5C, 0x5C, 0x5C] =
   (0x14ABED96, 0x0CB6ACA0, 0x28A4E69E, 0x23BDF256, 0x92CE46A7)"
  by (simp add: sha1_block_def be32_def sha1_eval del: sha1_rounds.simps)

lemma hmac_outer_msg_block:
  "sha1_block (0x14ABED96, 0x0CB6ACA0, 0x28A4E69E, 0x23BDF256, 0x92CE46A7)
     [0xCD, 0xB7, 0xC6, 0xF4, 0x25, 0xCD, 0x51, 0xC6, 0x7C, 0x16, 0xE9, 0x0B, 0xED, 0x36, 0x5A, 0x00,
      0x8C, 0x25, 0x7E, 0x03, 0x80, 0x00, 0x00, 0x00, 0x00, 0x00, 0x00, 0x00, 0x00, 0x00, 0x00, 0x00,
      0x00, 0x00, 0x00, 0x00, 0x00, 0x00, 0x00, 0x00, 0x00, 0x00, 0x00, 0x00, 0x00, 0x00, 0x00, 0x00,
      0x00, 0x00, 0x00, 0x00, 0x00, 0x00, 0x00, 0x00, 0x00, 0x00, 0x00, 0x00, 0x00, 0x00, 0x02, 0xA0] =
   (0x21FBDDF5, 0x8A7C80F7, 0xBA7B0CD1, 0x2B9783DA, 0x067FD4E2)"
  by (simp add: sha1_block_def be32_def sha1_eval del: sha1_rounds.simps)

lemma hmac_inner_digest:
  "sha1
     [0x45, 0x05, 0x55, 0x44, 0x05, 0x42, 0x36, 0x36, 0x36, 0x36, 0x36, 0x36, 0x36, 0x36, 0x36, 0x36,
      0x36, 0x36, 0x36, 0x36, 0x36, 0x36, 0x36, 0x36, 0x36, 0x36, 0x36, 0x36, 0x36, 0x36, 0x36, 0x36,
      0x36, 0x36, 0x36, 0x36, 0x36, 0x36, 0x36, 0x36, 0x36, 0x36, 0x36, 0x36, 0x36, 0x36, 0x36, 0x36,
      0x36, 0x36, 0x36, 0x36, 0x36, 0x36, 0x36, 0x36, 0x36, 0x36, 0x36, 0x36, 0x36, 0x36, 0x36, 0x36,
      0x68, 0x65, 0x6C, 0x6C, 0x6F] =
   [0xCD, 0xB7, 0xC6, 0xF4, 0x25, 0xCD, 0x51, 0xC6, 0x7C, 0x16, 0xE9, 0x0B, 0xED, 0x36, 0x5A, 0x00,
    0x8C, 0x25, 0x7E, 0x03]"
proof -
  have padded: "sha1_pad
     [0x45, 0x05, 0x55, 0x44, 0x05, 0x42, 0x36, 0x36, 0x36, 0x36, 0x36, 0x36, 0x36, 0x36, 0x36, 0x36,
      0x36, 0x36, 0x36, 0x36, 0x36, 0x36, 0x36, 0x36, 0x36, 0x36, 0x36, 0x36, 0x36, 0x36, 0x36, 0x36,
      0x36, 0x36, 0x36, 0x36, 0x36, 0x36, 0x36, 0x36, 0x36, 0x36, 0x36, 0x36, 0x36, 0x36, 0x36, 0x36,
      0x36, 0x36, 0x36, 0x36, 0x36, 0x36, 0x36, 0x36, 0x36, 0x36, 0x36, 0x36, 0x36, 0x36, 0x36, 0x36,
      0x68, 0x65, 0x6C, 0x6C, 0x6F] =
     [0x45, 0x05, 0x55, 0x44, 0x05, 0x42, 0x36, 0x36, 0x36, 0x36, 0x36, 0x36, 0x36, 0x36, 0x36, 0x36,
      0x36, 0x36, 0x36, 0x36, 0x36, 0x36, 0x36, 0x36, 0x36, 0x36, 0x36, 0x36, 0x36, 0x36, 0x36, 0x36,
      0x36, 0x36, 0x36, 0x36, 0x36, 0x36, 0x36, 0x36, 0x36, 0x36, 0x36, 0x36, 0x36, 0x36, 0x36, 0x36,
      0x36, 0x36, 0x36, 0x36, 0x36, 0x36, 0x36, 0x36, 0x36, 0x36, 0x36, 0x36, 0x36, 0x36, 0x36, 0x36,
      0x68, 0x65, 0x6C, 0x6C, 0x6F, 0x80, 0x00, 0x00, 0x00, 0x00, 0x00, 0x00, 0x00, 0x00, 0x00, 0x00,
      0x00, 0x00, 0x00, 0x00, 0x00, 0x00, 0x00, 0x00, 0x00, 0x00, 0x00, 0x00, 0x00, 0x00, 0x00, 0x00,
      0x00, 0x00, 0x00, 0x00, 0x00, 0x00, 0x00, 0x00, 0x00, 0x00, 0x00, 0x00, 0x00, 0x00, 0x00, 0x00,
      0x00, 0x00, 0x00, 0x00, 0x00, 0x00, 0x00, 0x00, 0x00, 0x00, 0x00, 0x00, 0x00, 0x00, 0x02, 0x28]"
    by (simp add: sha1_pad_def be64_bytes_def upt_rec [of _ "numeral _"] replicate_numeral_Cons)
  have blocks: "chunks 64
     [0x45, 0x05, 0x55, 0x44, 0x05, 0x42, 0x36, 0x36, 0x36, 0x36, 0x36, 0x36, 0x36, 0x36, 0x36, 0x36,
      0x36, 0x36, 0x36, 0x36, 0x36, 0x36, 0x36, 0x36, 0x36, 0x36, 0x36, 0x36, 0x36, 0x36, 0x36, 0x36,
      0x36, 0x36, 0x36, 0x36, 0x36, 0x36, 0x36, 0x36, 0x36, 0x36, 0x36, 0x36, 0x36, 0x36, 0x36, 0x36,
      0x36, 0x36, 0x36, 0x36, 0x36, 0x36, 0x36, 0x36, 0x36, 0x36, 0x36, 0x36, 0x36, 0x36, 0x36, 0x36,
      0x68, 0x65, 0x6C, 0x6C, 0x6F, 0x80, 0x00, 0x00, 0x00, 0x00, 0x00, 0x00, 0x00, 0x00, 0x00, 0x00,
      0x00, 0x00, 0x00, 0x00, 0x00, 0x00, 0x00, 0x00, 0x00, 0x00, 0x00, 0x00, 0x00, 0x00, 0x00, 0x00,
      0x00, 0x00, 0x00, 0x00, 0x00, 0x00, 0x00, 0x00, 0x00, 0x00, 0x00, 0x00, 0x00, 0x00, 0x00, 0x00,
      0x00, 0x00, 0x00, 0x00, 0x00, 0x00, 0x00, 0x00, 0x00, 0x00, 0x00, 0x00, 0x00, 0x00, 0x02, 0x28] =
    [[0x45, 0x05, 0x55, 0x44, 0x05, 0x42, 0x36, 0x36, 0x36, 0x36, 0x36, 0x36, 0x36, 0x36, 0x36, 0x36,
      0x36, 0x36, 0x36, 0x36, 0x36, 0x36, 0x36, 0x36, 0x36, 0x36, 0x36, 0x36, 0x36, 0x36, 0x36, 0x36,
      0x36, 0x36, 0x36, 0x36, 0x36, 0x36, 0x36, 0x36, 0x36, 0x36, 0x36, 0x36, 0x36, 0x36, 0x36, 0x36,
      0x36, 0x36, 0x36, 0x36, 0x36, 0x36, 0x36, 0x36, 0x36, 0x36, 0x36, 0x36, 0x36, 0x36, 0x36, 0x36],
     [0x68, 0x65, 0x6C, 0x6C, 0x6F, 0x80, 0x00, 0x00, 0x00, 0x00, 0x00, 0x00, 0x00, 0x00, 0x00, 0x00,
      0x00, 0x00, 0x00, 0x00, 0x00, 0x00, 0x00, 0x00, 0x00, 0x00, 0x00, 0x00, 0x00, 0x00, 0x00, 0x00,
      0x00, 0x00, 0x00, 0x00, 0x00, 0x00, 0x00, 0x00, 0x00, 0x00, 0x00, 0x00, 0x00, 0x00, 0x00, 0x00,
      0x00, 0x00, 0x00, 0x00, 0x00, 0x00, 0x00, 0x00, 0x00, 0x00, 0x00, 0x00, 0x00, 0x00, 0x02, 0x28]]"
    by simp
  show ?thesis
    unfolding sha1_def padded blocks
    by (simp add: hmac_inner_key_block hmac_inner_msg_block u32_bytes_def)
qed

lemma hmac_outer_digest:
  "sha1
     [0x2F, 0x6F, 0x3F, 0x2E, 0x6F, 0x28, 0x5C, 0x5C, 0x5C, 0x5C, 0x5C, 0x5C, 0x5C, 0x5C, 0x5C, 0x5C,
      0x5C, 0x5C, 0x5C, 0x5C, 0x5C, 0x5C, 0x5C, 0x5C, 0x5C, 0x5C, 0x5C, 0x5C, 0x5C, 0x5C, 0x5C, 0x5C,
      0x5C, 0x5C, 0x5C, 0x5C, 0x5C, 0x5C, 0x5C, 0x5C, 0x5C, 0x5C, 0x5C, 0x5C, 0x5C, 0x5C, 0x5C, 0x5C,
      0x5C, 0x5C, 0x5C, 0x5C, 0x5C, 0x5C, 0x5C, 0x5C, 0x5C, 0x5C, 0x5C, 0x5C, 0x5C, 0x5C, 0x5C, 0x5C,
      0xCD, 0xB7, 0xC6, 0xF4, 0x25, 0xCD, 0x51, 0xC6, 0x7C, 0x16, 0xE9, 0x0B, 0xED, 0x36, 0x5A, 0x00,
      0x8C, 0x25, 0x7E, 0x03] =
   [0x21, 0xFB, 0xDD, 0xF5, 0x8A, 0x7C, 0x80, 0xF7, 0xBA, 0x7B, 0x0C, 0xD1, 0x2B, 0x97, 0x83, 0xDA,
    0x06, 0x7F, 0xD4, 0xE2]"
proof -
  have padded: "sha1_pad
     [0x2F, 0x6F, 0x3F, 0x2E, 0x6F, 0x28, 0x5C, 0x5C, 0x5C, 0x5C, 0x5C, 0x5C, 0x5C, 0x5C, 0x5C, 0x5C,
      0x5C, 0x5C, 0x5C, 0x5C, 0x5C, 0x5C, 0x5C, 0x5C, 0x5C, 0x5C, 0x5C, 0x5C, 0x5C, 0x5C, 0x5C, 0x5C,
      0x5C, 0x5C, 0x5C, 0x5C, 0x5C, 0x5C, 0x5C, 0x5C, 0x5C, 0x5C, 0x5C, 0x5C, 0x5C, 0x5C, 0x5C, 0x5C,
      0x5C, 0x5C, 0x5C, 0x5C, 0x5C, 0x5C, 0x5C, 0x5C, 0x5C, 0x5C, 0x5C, 0x5C, 0x5C, 0x5C, 0x5C, 0x5C,
      0xCD, 0xB7, 0xC6, 0xF4, 0x25, 0xCD, 0x51, 0xC6, 0x7C, 0x16, 0xE9, 0x0B, 0xED, 0x36, 0x5A, 0x00,
      0x8C, 0x25, 0x7E, 0x03] =
     [0x2F, 0x6F, 0x3F, 0x2E, 0x6F, 0x28, 0x5C, 0x5C, 0x5C, 0x5C, 0x5C, 0x5C, 0x5C, 0x5C, 0x5C, 0x5C,
      0x5C, 0x5C, 0x5C, 0x5C, 0x5C, 0x5C, 0x5C, 0x5C, 0x5C, 0x5C, 0x5C, 0x5C, 0x5C, 0x5C, 0x5C, 0x5C,
      0x5C, 0x5C, 0x5C, 0x5C, 0x5C, 0x5C, 0x5C, 0x5C, 0x5C, 0x5C, 0x5C, 0x5C, 0x5C, 0x5C, 0x5C, 0x5C,
      0x5C, 0x5C, 0x5C, 0x5C, 0x5C, 0x5C, 0x5C, 0x5C, 0x5C, 0x5C, 0x5C, 0x5C, 0x5C, 0x5C, 0x5C, 0x5C,
      0xCD, 0xB7, 0xC6, 0xF4, 0x25, 0xCD, 0x51, 0xC6, 0x7C, 0x16, 0xE9, 0x0B, 0xED, 0x36, 0x5A, 0x00,
      0x8C, 0x25, 0x7E, 0x03, 0x80, 0x00, 0x00, 0x00, 0x00, 0x00, 0x00, 0x00, 0x00, 0x00, 0x00, 0x00,
      0x00, 0x00, 0x00, 0x00, 0x00, 0x00, 0x00, 0x00, 0x00, 0x00, 0x00, 0x00, 0x00, 0x00, 0x00, 0x00,
      0x00, 0x00, 0x00, 0x00, 0x00, 0x00, 0x00, 0x00, 0x00, 0x00, 0x00, 0x00, 0x00, 0x00, 0x02, 0xA0]"
    by (simp add: sha1_pad_def be64_bytes_def upt_rec [of _ "numeral _"] replicate_numeral_Cons)
  have blocks: "chunks 64
     [0x2F, 0x6F, 0x3F, 0x2E, 0x6F, 0x28, 0x5C, 0x5C, 0x5C, 0x5C, 0x5C, 0x5C, 0x5C, 0x5C, 0x5C, 0x5C,
      0x5C, 0x5C, 0x5C, 0x5C, 0x5C, 0x5C, 0x5C, 0x5C, 0x5C, 0x5C, 0x5C, 0x5C, 0x5C, 0x5C, 0x5C, 0x5C,
      0x5C, 0x5C, 0x5C, 0x5C, 0x5C, 0x5C, 0x5C, 0x5C, 0x5C, 0x5C, 0x5C, 0x5C, 0x5C, 0x5C, 0x5C, 0x5C,
      0x5C, 0x5C, 0x5C, 0x5C, 0x5C, 0x5C, 0x5C, 0x5C, 0x5C, 0x5C, 0x5C, 0x5C, 0x5C, 0x5C, 0x5C, 0x5C,
      0xCD, 0xB7, 0xC6, 0xF4, 0x25, 0xCD, 0x51, 0xC6, 0x7C, 0x16, 0xE9, 0x0B, 0xED, 0x36, 0x5A, 0x00,
      0x8C, 0x25, 0x7E, 0x03, 0x80, 0x00, 0x00, 0x00, 0x00, 0x00, 0x00, 0x00, 0x00, 0x00, 0x00, 0x00,
      0x00, 0x00, 0x00, 0x00, 0x00, 0x00, 0x00, 0x00, 0x00, 0x00, 0x00, 0x00, 0x00, 0x00, 0x00, 0x00,
      0x00, 0x00, 0x00, 0x00, 0x00, 0x00, 0x00, 0x00, 0x00, 0x00, 0x00, 0x00, 0x00, 0x00, 0x02, 0xA0] =
    [[0x2F, 0x6F, 0x3F, 0x2E, 0x6F, 0x28, 0x5C, 0x5C, 0x5C, 0x5C, 0x5C, 0x5C, 0x5C, 0x5C, 0x5C, 0x5C,
      0x5C, 0x5C, 0x5C, 0x5C, 0x5C, 0x5C, 0x5C, 0x5C, 0x5C, 0x5C, 0x5C, 0x5C, 0x5C, 0x5C, 0x5C, 0x5C,
      0x5C, 0x5C, 0x5C, 0x5C, 0x5C, 0x5C, 0x5C, 0x5C, 0x5C, 0x5C, 0x5C, 0x5C, 0x5C, 0x5C, 0x5C, 0x5C,
      0x5C, 0x5C, 0x5C, 0x5C, 0x5C, 0x5C, 0x5C, 0x5C, 0x5C, 0x5C, 0x5C, 0x5C, 0x5C, 0x5C, 0x5C, 0x5C],
     [0xCD, 0xB7, 0xC6, 0xF4, 0x25, 0xCD, 0x51, 0xC6, 0x7C, 0x16, 0xE9, 0x0B, 0xED, 0x36, 0x5A, 0x00,
      0x8C, 0x25, 0x7E, 0x03, 0x80, 0x00, 0x00, 0x00, 0x00, 0x00, 0x00, 0x00, 0x00, 0x00, 0x00, 0x00,
      0x00, 0x00, 0x00, 0x00, 0x00, 0x00, 0x00, 0x00, 0x00, 0x00, 0x00, 0x00, 0x00, 0x00, 0x00, 0x00,
      0x00, 0x00, 0x00, 0x00, 0x00, 0x00, 0x00, 0x00, 0x00, 0x00, 0x00, 0x00, 0x00, 0x00, 0x02, 0xA0]]"
    by simp
  show ?thesis
    unfolding sha1_def padded blocks
    by (simp add: hmac_outer_key_block hmac_outer_msg_block u32_bytes_def)
qed

lemma hmac_sha1_s3cr3t_hello:
  "hmac_sha1 (bytes_of ''s3cr3t'') (bytes_of ''hello'') =
   [0x21, 0xFB, 0xDD, 0xF5, 0x8A, 0x7C, 0x80, 0xF7, 0xBA, 0x7B, 0x0C, 0xD1, 0x2B, 0x97, 0x83, 0xDA,
    0x06, 0x7F, 0xD4, 0xE2]"
proof -
  have "hmac_sha1 (bytes_of ''s3cr3t'') (bytes_of ''hello'') =
        sha1 ([0x2F, 0x6F, 0x3F, 0x2E, 0x6F, 0x28, 0x5C, 0x5C, 0x5C, 0x5C, 0x5C, 0x5C, 0x5C, 0x5C, 0x5C, 0x5C,
          0x5C, 0x5C, 0x5C, 0x5C, 0x5C, 0x5C, 0x5C, 0x5C, 0x5C, 0x5C, 0x5C, 0x5C, 0x5C, 0x5C, 0x5C, 0x5C,
          0x5C, 0x5C, 0x5C, 0x5C, 0x5C, 0x5C, 0x5C, 0x5C, 0x5C, 0x5C, 0x5C, 0x5C, 0x5C, 0x5C, 0x5C, 0x5C,
          0x5C, 0x5C, 0x5C, 0x5C, 0x5C, 0x5C, 0x5C, 0x5C, 0x5C, 0x5C, 0x5C, 0x5C, 0x5C, 0x5C, 0x5C, 0x5C] @
          sha1 ([0x45, 0x05, 0x55, 0x44, 0x05, 0x42, 0x36, 0x36, 0x36, 0x36, 0x36, 0x36, 0x36, 0x36, 0x36, 0x36,
                0x36, 0x36, 0x36, 0x36, 0x36, 0x36, 0x36, 0x36, 0x36, 0x36, 0x36, 0x36, 0x36, 0x36, 0x36, 0x36,
                0x36, 0x36, 0x36, 0x36, 0x36, 0x36, 0x36, 0x36, 0x36, 0x36, 0x36, 0x36, 0x36, 0x36, 0x36, 0x36,
                0x36, 0x36, 0x36, 0x36, 0x36, 0x36, 0x36, 0x36, 0x36, 0x36, 0x36, 0x36, 0x36, 0x36, 0x36, 0x36] @
                [0x68, 0x65, 0x6C, 0x6C, 0x6F]))"
    by (simp add: hmac_sha1_def bytes_of_s3cr3t bytes_of_hello replicate_numeral_Cons)
  then show ?thesis
    using hmac_inner_digest hmac_outer_digest by simp
qed

lemma hexdigest_s3cr3t_hello:
  "hexdigest (bytes_of ''s3cr3t'') (bytes_of ''hello'') = ''21fbddf58a7c80f7ba7b0cd12b9783da067fd4e2''"
  by (simp add: hexdigest_def hmac_sha1_s3cr3t_hello hexlify_def hex_digit_def)

lemma hmac_inner_empty_block:
  "sha1_block (0xFC6CE11C, 0xCCE0C679, 0x646F2FFF, 0x3D7746FA, 0x28F259A5)
     [0x80, 0x00, 0x00, 0x00, 0x00, 0x00, 0x00, 0x00, 0x00, 0x00, 0x00, 0x00, 0x00, 0x00, 0x00, 0x00,
      0x00, 0x00, 0x00, 0x00, 0x00, 0x00, 0x00, 0x00, 0x00, 0x00, 0x00, 0x00, 0x00, 0x00, 0x00, 0x00,
      0x00, 0x00, 0x00, 0x00, 0x00, 0x00, 0x00, 0x00, 0x00, 0x00, 0x00, 0x00, 0x00, 0x00, 0x00, 0x00,
      0x00, 0x00, 0x00, 0x00, 0x00, 0x00, 0x00, 0x00, 0x00, 0x00, 0x00, 0x00, 0x00, 0x00, 0x02, 0x00] =
   (0x0034A2C0, 0x45B08BD1, 0x5F862105, 0xDEEA0A47, 0xA3791DEC)"
  by (simp add: sha1_block_def be32_def sha1_eval del: sha1_rounds.simps)

lemma hmac_outer_empty_block:
  "sha1_block (0x14ABED96, 0x0CB6ACA0, 0x28A4E69E, 0x23BDF256, 0x92CE46A7)
     [0x00, 0x34, 0xA2, 0xC0, 0x45, 0xB0, 0x8B, 0xD1, 0x5F, 0x86, 0x21, 0x05, 0xDE, 0xEA, 0x0A, 0x47,
      0xA3, 0x79, 0x1D, 0xEC, 0x80, 0x00, 0x00, 0x00, 0x00, 0x00, 0x00, 0x00, 0x00, 0x00, 0x00, 0x00,
      0x00, 0x00, 0x00, 0x00, 0x00, 0x00, 0x00, 0x00, 0x00, 0x00, 0x00, 0x00, 0x00, 0x00, 0x00, 0x00,
      0x00, 0x00, 0x00, 0x00, 0x00, 0x00, 0x00, 0x00, 0x00, 0x00, 0x00, 0x00, 0x00, 0x00, 0x02, 0xA0] =
   (0x319E5F42, 0xB6B9DC5D, 0xAA3B1D41, 0x1DF1A3F7, 0xC891F358)"
  by (simp add: sha1_block_def be32_def sha1_eval del: sha1_rounds.simps)

lemma hmac_inner_digest_empty:
  "sha1
     [0x45, 0x05, 0x55, 0x44, 0x05, 0x42, 0x36, 0x36, 0x36, 0x36, 0x36, 0x36, 0x36, 0x36, 0x36, 0x36,
      0x36, 0x36, 0x36, 0x36, 0x36, 0x36, 0x36, 0x36, 0x36, 0x36, 0x36, 0x36, 0x36, 0x36, 0x36, 0x36,
      0x36, 0x36, 0x36, 0x36, 0x36, 0x36, 0x36, 0x36, 0x36, 0x36, 0x36, 0x36, 0x36, 0x36, 0x36, 0x36,
      0x36, 0x36, 0x36, 0x36, 0x36, 0x36, 0x36, 0x36, 0x36, 0x36, 0x36, 0x36, 0x36, 0x36, 0x36, 0x36] =
   [0x00, 0x34, 0xA2, 0xC0, 0x45, 0xB0, 0x8B, 0xD1, 0x5F, 0x86, 0x21, 0x05, 0xDE, 0xEA, 0x0A, 0x47,
    0xA3, 0x79, 0x1D, 0xEC]"
proof -
  have padded: "sha1_pad
     [0x45, 0x05, 0x55, 0x44, 0x05, 0x42, 0x36, 0x36, 0x36, 0x36, 0x36, 0x36, 0x36, 0x36, 0x36, 0x36,
      0x36, 0x36, 0x36, 0x36, 0x36, 0x36, 0x36, 0x36, 0x36, 0x36, 0x36, 0x36, 0x36, 0x36, 0x36, 0x36,
      0x36, 0x36, 0x36, 0x36, 0x36, 0x36, 0x36, 0x36, 0x36, 0x36, 0x36, 0x36, 0x36, 0x36, 0x36, 0x36,
      0x36, 0x36, 0x36, 0x36, 0x36, 0x36, 0x36, 0x36, 0x36, 0x36, 0x36, 0x36, 0x36, 0x36, 0x36, 0x36] =
     [0x45, 0x05, 0x55, 0x44, 0x05, 0x42, 0x36, 0x36, 0x36, 0x36, 0x36, 0x36, 0x36, 0x36, 0x36, 0x36,
      0x36, 0x36, 0x36, 0x36, 0x36, 0x36, 0x36, 0x36, 0x36, 0x36, 0x36, 0x36, 0x36, 0x36, 0x36, 0x36,
      0x36, 0x36, 0x36, 0x36, 0x36, 0x36, 0x36, 0x36, 0x36, 0x36, 0x36, 0x36, 0x36, 0x36, 0x36, 0x36,
      0x36, 0x36, 0x36, 0x36, 0x36, 0x36, 0x36, 0x36, 0x36, 0x36, 0x36, 0x36, 0x36, 0x36, 0x36, 0x36,
      0x80, 0x00, 0x00, 0x00, 0x00, 0x00, 0x00, 0x00, 0x00, 0x00, 0x00, 0x00, 0x00, 0x00, 0x00, 0x00,
      0x00, 0x00, 0x00, 0x00, 0x00, 0x00, 0x00, 0x00, 0x00, 0x00, 0x00, 0x00, 0x00, 0x00, 0x00, 0x00,
      0x00, 0x00, 0x00, 0x00, 0x00, 0x00, 0x00, 0x00, 0x00, 0x00, 0x00, 0x00, 0x00, 0x00, 0x00, 0x00,
      0x00, 0x00, 0x00, 0x00, 0x00, 0x00, 0x00, 0x00, 0x00, 0x00, 0x00, 0x00, 0x00, 0x00, 0x02, 0x00]"
    by (simp add: sha1_pad_def be64_bytes_def upt_rec [of _ "numeral _"] replicate_numeral_Cons)
  have blocks: "chunks 64
     [0x45, 0x05, 0x55, 0x44, 0x05, 0x42, 0x36, 0x36, 0x36, 0x36, 0x36, 0x36, 0x36, 0x36, 0x36, 0x36,
      0x36, 0x36, 0x36, 0x36, 0x36, 0x36, 0x36, 0x36, 0x36, 0x36, 0x36, 0x36, 0x36, 0x36, 0x36, 0x36,
      0x36, 0x36, 0x36, 0x36, 0x36, 0x36, 0x36, 0x36, 0x36, 0x36, 0x36, 0x36, 0x36, 0x36, 0x36, 0x36,
      0x36, 0x36, 0x36, 0x36, 0x36, 0x36, 0x36, 0x36, 0x36, 0x36, 0x36, 0x36, 0x36, 0x36, 0x36, 0x36,
      0x80, 0x00, 0x00, 0x00, 0x00, 0x00, 0x00, 0x00, 0x00, 0x00, 0x00, 0x00, 0x00, 0x00, 0x00, 0x00,
      0x00, 0x00, 0x00, 0x00, 0x00, 0x00, 0x00, 0x00, 0x00, 0x00, 0x00, 0x00, 0x00, 0x00, 0x00, 0x00,
      0x00, 0x00, 0x00, 0x00, 0x00, 0x00, 0x00, 0x00, 0x00, 0x00, 0x00, 0x00, 0x00, 0x00, 0x00, 0x00,
      0x00, 0x00, 0x00, 0x00, 0x00, 0x00, 0x00, 0x00, 0x00, 0x00, 0x00, 0x00, 0x00, 0x00, 0x02, 0x00] =
    [[0x45, 0x05, 0x55, 0x44, 0x05, 0x42, 0x36, 0x36, 0x36, 0x36, 0x36, 0x36, 0x36, 0x36, 0x36, 0x36,
      0x36, 0x36, 0x36, 0x36, 0x36, 0x36, 0x36, 0x36, 0x36, 0x36, 0x36, 0x36, 0x36, 0x36, 0x36, 0x36,
      0x36, 0x36, 0x36, 0x36, 0x36, 0x36, 0x36, 0x36, 0x36, 0x36, 0x36, 0x36, 0x36, 0x36, 0x36, 0x36,
      0x36, 0x36, 0x36, 0x36, 0x36, 0x36, 0x36, 0x36, 0x36, 0x36, 0x36, 0x36, 0x36, 0x36, 0x36, 0x36],
     [0x80, 0x00, 0x00, 0x00, 0x00, 0x00, 0x00, 0x00, 0x00, 0x00, 0x00, 0x00, 0x00, 0x00, 0x00, 0x00,
      0x00, 0x00, 0x00, 0x00, 0x00, 0x00, 0x00, 0x00, 0x00, 0x00, 0x00, 0x00, 0x00, 0x00, 0x00, 0x00,
      0x00, 0x00, 0x00, 0x00, 0x00, 0x00, 0x00, 0x00, 0x00, 0x00, 0x00, 0x00, 0x00, 0x00, 0x00, 0x00,
      0x00, 0x00, 0x00, 0x00, 0x00, 0x00, 0x00, 0x00, 0x00, 0x00, 0x00, 0x00, 0x00, 0x00, 0x02, 0x00]]"
    by simp
  show ?thesis
    unfolding sha1_def padded blocks
    by (simp add: hmac_inner_key_block hmac_inner_empty_block u32_bytes_def)
qed

lemma hmac_outer_digest_empty:
  "sha1
     [0x2F, 0x6F, 0x3F, 0x2E, 0x6F, 0x28, 0x5C, 0x5C, 0x5C, 0x5C, 0x5C, 0x5C, 0x5C, 0x5C, 0x5C, 0x5C,
      0x5C, 0x5C, 0x5C, 0x5C, 0x5C, 0x5C, 0x5C, 0x5C, 0x5C, 0x5C, 0x5C, 0x5C, 0x5C, 0x5C, 0x5C, 0x5C,
      0x5C, 0x5C, 0x5C, 0x5C, 0x5C, 0x5C, 0x5C, 0x5C, 0x5C, 0x5C, 0x5C, 0x5C, 0x5C, 0x5C, 0x5C, 0x5C,
      0x5C, 0x5C, 0x5C, 0x5C, 0x5C, 0x5C, 0x5C, 0x5C, 0x5C, 0x5C, 0x5C, 0x5C, 0x5C, 0x5C, 0x5C, 0x5C,
      0x00, 0x34, 0xA2, 0xC0, 0x45, 0xB0, 0x8B, 0xD1, 0x5F, 0x86, 0x21, 0x05, 0xDE, 0xEA, 0x0A, 0x47,
      0xA3, 0x79, 0x1D, 0xEC] =
   [0x31, 0x9E, 0x5F, 0x42, 0xB6, 0xB9, 0xDC, 0x5D, 0xAA, 0x3B, 0x1D, 0x41, 0x1D, 0xF1, 0xA3, 0xF7,
    0xC8, 0x91, 0xF3, 0x58]"
proof -
  have padded: "sha1_pad
     [0x2F, 0x6F, 0x3F, 0x2E, 0x6F, 0x28, 0x5C, 0x5C, 0x5C, 0x5C, 0x5C, 0x5C, 0x5C, 0x5C, 0x5C, 0x5C,
      0x5C, 0x5C, 0x5C, 0x5C, 0x5C, 0x5C, 0x5C, 0x5C, 0x5C, 0x5C, 0x5C, 0x5C, 0x5C, 0x5C, 0x5C, 0x5C,
      0x5C, 0x5C, 0x5C, 0x5C, 0x5C, 0x5C, 0x5C, 0x5C, 0x5C, 0x5C, 0x5C, 0x5C, 0x5C, 0x5C, 0x5C, 0x5C,
      0x5C, 0x5C, 0x5C, 0x5C, 0x5C, 0x5C, 0x5C, 0x5C, 0x5C, 0x5C, 0x5C, 0x5C, 0x5C, 0x5C, 0x5C, 0x5C,
      0x00, 0x34, 0xA2, 0xC0, 0x45, 0xB0, 0x8B, 0xD1, 0x5F, 0x86, 0x21, 0x05, 0xDE, 0xEA, 0x0A, 0x47,
      0xA3, 0x79, 0x1D, 0xEC] =
     [0x2F, 0x6F, 0x3F, 0x2E, 0x6F, 0x28, 0x5C, 0x5C, 0x5C, 0x5C, 0x5C, 0x5C, 0x5C, 0x5C, 0x5C, 0x5C,
      0x5C, 0x5C, 0x5C, 0x5C, 0x5C, 0x5C, 0x5C, 0x5C, 0x5C, 0x5C, 0x5C, 0x5C, 0x5C, 0x5C, 0x5C, 0x5C,
      0x5C, 0x5C, 0x5C, 0x5C, 0x5C, 0x5C, 0x5C, 0x5C, 0x5C, 0x5C, 0x5C, 0x5C, 0x5C, 0x5C, 0x5C, 0x5C,
      0x5C, 0x5C, 0x5C, 0x5C, 0x5C, 0x5C, 0x5C, 0x5C, 0x5C, 0x5C, 0x5C, 0x5C, 0x5C, 0x5C, 0x5C, 0x5C,
      0x00, 0x34, 0xA2, 0xC0, 0x45, 0xB0, 0x8B, 0xD1, 0x5F, 0x86, 0x21, 0x05, 0xDE, 0xEA, 0x0A, 0x47,
      0xA3, 0x79, 0x1D, 0xEC, 0x80, 0x00, 0x00, 0x00, 0x00, 0x00, 0x00, 0x00, 0x00, 0x00, 0x00, 0x00,
      0x00, 0x00, 0x00, 0x00, 0x00, 0x00, 0x00, 0x00, 0x00, 0x00, 0x00, 0x00, 0x00, 0x00, 0x00, 0x00,
      0x00, 0x00, 0x00, 0x00, 0x00, 0x00, 0x00, 0x00, 0x00, 0x00, 0x00, 0x00, 0x00, 0x00, 0x02, 0xA0]"
    by (simp add: sha1_pad_def be64_bytes_def upt_rec [of _ "numeral _"] replicate_numeral_Cons)
  have blocks: "chunks 64
     [0x2F, 0x6F, 0x3F, 0x2E, 0x6F, 0x28, 0x5C, 0x5C, 0x5C, 0x5C, 0x5C, 0x5C, 0x5C, 0x5C, 0x5C, 0x5C,
      0x5C, 0x5C, 0x5C, 0x5C, 0x5C, 0x5C, 0x5C, 0x5C, 0x5C, 0x5C, 0x5C, 0x5C, 0x5C, 0x5C, 0x5C, 0x5C,
      0x5C, 0x5C, 0x5C, 0x5C, 0x5C, 0x5C, 0x5C, 0x5C, 0x5C, 0x5C, 0x5C, 0x5C, 0x5C, 0x5C, 0x5C, 0x5C,
      0x5C, 0x5C, 0x5C, 0x5C, 0x5C, 0x5C, 0x5C, 0x5C, 0x5C, 0x5C, 0x5C, 0x5C, 0x5C, 0x5C, 0x5C, 0x5C,
      0x00, 0x34, 0xA2, 0xC0, 0x45, 0xB0, 0x8B, 0xD1, 0x5F, 0x86, 0x21, 0x05, 0xDE, 0xEA, 0x0A, 0x47,
      0xA3, 0x79, 0x1D, 0xEC, 0x80, 0x00, 0x00, 0x00, 0x00, 0x00, 0x00, 0x00, 0x00, 0x00, 0x00, 0x00,
      0x00, 0x00, 0x00, 0x00, 0x00, 0x00, 0x00, 0x00, 0x00, 0x00, 0x00, 0x00, 0x00, 0x00, 0x00, 0x00,
      0x00, 0x00, 0x00, 0x00, 0x00, 0x00, 0x00, 0x00, 0x00, 0x00, 0x00, 0x00, 0x00, 0x00, 0x02, 0xA0] =
    [[0x2F, 0x6F, 0x3F, 0x2E, 0x6F, 0x28, 0x5C, 0x5C, 0x5C, 0x5C, 0x5C, 0x5C, 0x5C, 0x5C, 0x5C, 0x5C,
      0x5C, 0x5C, 0x5C, 0x5C, 0x5C, 0x5C, 0x5C, 0x5C, 0x5C, 0x5C, 0x5C, 0x5C, 0x5C, 0x5C, 0x5C, 0x5C,
      0x5C, 0x5C, 0x5C, 0x5C, 0x5C, 0x5C, 0x5C, 0x5C, 0x5C, 0x5C, 0x5C, 0x5C, 0x5C, 0x5C, 0x5C, 0x5C,
      0x5C, 0x5C, 0x5C, 0x5C, 0x5C, 0x5C, 0x5C, 0x5C, 0x5C, 0x5C, 0x5C, 0x5C, 0x5C, 0x5C, 0x5C, 0x5C],
     [0x00, 0x34, 0xA2, 0xC0, 0x45, 0xB0, 0x8B, 0xD1, 0x5F, 0x86, 0x21, 0x05, 0xDE, 0xEA, 0x0A, 0x47,
      0xA3, 0x79, 0x1D, 0xEC, 0x80, 0x00, 0x00, 0x00, 0x00, 0x00, 0x00, 0x00, 0x00, 0x00, 0x00, 0x00,
      0x00, 0x00, 0x00, 0x00, 0x00, 0x00, 0x00, 0x00, 0x00, 0x00, 0x00, 0x00, 0x00, 0x00, 0x00, 0x00,
      0x00, 0x00, 0x00, 0x00, 0x00, 0x00, 0x00, 0x00, 0x00, 0x00, 0x00, 0x00, 0x00, 0x00, 0x02, 0xA0]]"
    by simp
  show ?thesis
    unfolding sha1_def padded blocks
    by (simp add: hmac_outer_key_block hmac_outer_empty_block u32_bytes_def)
qed

lemma hmac_sha1_s3cr3t_empty:
  "hmac_sha1 (bytes_of ''s3cr3t'') [] =
   [0x31, 0x9E, 0x5F, 0x42, 0xB6, 0xB9, 0xDC, 0x5D, 0xAA, 0x3B, 0x1D, 0x41, 0x1D, 0xF1, 0xA3, 0xF7,
    0xC8, 0x91, 0xF3, 0x58]"
proof -
  have "hmac_sha1 (bytes_of ''s3cr3t'') [] =
        sha1 ([0x2F, 0x6F, 0x3F, 0x2E, 0x6F, 0x28, 0x5C, 0x5C, 0x5C, 0x5C, 0x5C, 0x5C, 0x5C, 0x5C, 0x5C, 0x5C,
          0x5C, 0x5C, 0x5C, 0x5C, 0x5C, 0x5C, 0x5C, 0x5C, 0x5C, 0x5C, 0x5C, 0x5C, 0x5C, 0x5C, 0x5C, 0x5C,
          0x5C, 0x5C, 0x5C, 0x5C, 0x5C, 0x5C, 0x5C, 0x5C, 0x5C, 0x5C, 0x5C, 0x5C, 0x5C, 0x5C, 0x5C, 0x5C,
          0x5C, 0x5C, 0x5C, 0x5C, 0x5C, 0x5C, 0x5C, 0x5C, 0x5C, 0x5C, 0x5C, 0x5C, 0x5C, 0x5C, 0x5C, 0x5C] @
          sha1 [0x45, 0x05, 0x55, 0x44, 0x05, 0x42, 0x36, 0x36, 0x36, 0x36, 0x36, 0x36, 0x36, 0x36, 0x36, 0x36,
                0x36, 0x36, 0x36, 0x36, 0x36, 0x36, 0x36, 0x36, 0x36, 0x36, 0x36, 0x36, 0x36, 0x36, 0x36, 0x36,
                0x36, 0x36, 0x36, 0x36, 0x36, 0x36, 0x36, 0x36, 0x36, 0x36, 0x36, 0x36, 0x36, 0x36, 0x36, 0x36,
                0x36, 0x36, 0x36, 0x36, 0x36, 0x36, 0x36, 0x36, 0x36, 0x36, 0x36, 0x36, 0x36, 0x36, 0x36, 0x36])"
    by (simp add: hmac_sha1_def bytes_of_s3cr3t replicate_numeral_Cons)
  then show ?thesis
    using hmac_inner_digest_empty hmac_outer_digest_empty by simp
qed

lemma hexdigest_s3cr3t_empty:
  "hexdigest (bytes_of ''s3cr3t'') [] = ''319e5f42b6b9dc5daa3b1d411df1a3f7c891f358''"
  by (simp add: hexdigest_def hmac_sha1_s3cr3t_empty hexlify_def hex_digit_def)

section \<open>Properties of the handler\<close>

text \<open>
  A request whose signature header is \<open>sha1=\<close> followed by the lowercase hex HMAC-SHA1
  digest of \<open>request.data\<close> under the secret passes verification, for every secret: the
  mismatch branch is not taken and the update command is started. When both external
  commands return exit code 0, the handler answers 200 with body \<open>OK\<close>, having run the
  update and then the restart, once each.
\<close>

lemma matching_signature_accepted:
  assumes "headers request ''X-Hub-Signature'' = Some (''sha1='' @ hexdigest secret (data request))"
  shows "Log ERROR ''Error: Signature mismatch.'' \<notin> set (fst (webhook secret request run)) \<and>
         git_pull_cmd \<in> set (actions_invoked (fst (webhook secret request run))) \<and>
         (run git_pull_cmd = Inr p \<and> returncode p = 0 \<and>
          run restart_cmd = Inr q \<and> returncode q = 0 \<longrightarrow>
            snd (webhook secret request run) = Response ''OK'' 200 \<and>
            actions_invoked (fst (webhook secret request run)) = [git_pull_cmd, restart_cmd])"
proof -
  from assms have "signature_matches secret request"
    by (simp add: signature_matches_def)
  then have "webhook secret request run = deploy [Log INFO ''Received a request on /webhook''] run"
    by (rule webhook_verified)
  then show ?thesis
    using deploy_no_mismatch_log [of run] deploy_starts_pull [of INFO _ run]
      deploy_success [of run p q INFO]
    by simp
qed

lemma matching_signature_accepted_example:
  "snd (webhook (bytes_of ''s3cr3t'')
          (signed_request ''sha1=21fbddf58a7c80f7ba7b0cd12b9783da067fd4e2'' (bytes_of ''hello''))
          run_ok) = Response ''OK'' 200 \<and>
   actions_invoked (fst (webhook (bytes_of ''s3cr3t'')
          (signed_request ''sha1=21fbddf58a7c80f7ba7b0cd12b9783da067fd4e2'' (bytes_of ''hello''))
          run_ok)) = [git_pull_cmd, restart_cmd]"
  using matching_signature_accepted
    [of "signed_request ''sha1=21fbddf58a7c80f7ba7b0cd12b9783da067fd4e2'' (bytes_of ''hello'')"
        "bytes_of ''s3cr3t''" run_ok
        "\<lparr>returncode = 0, stdout = ''done'', stderr = ''''\<rparr>"
        "\<lparr>returncode = 0, stdout = ''done'', stderr = ''''\<rparr>"]
  by (simp add: signed_request_def run_ok_def hexdigest_s3cr3t_hello)

text \<open>
  C1. A request signed over its raw body does not pass verification for every body: the
  handler hashes \<open>request.data\<close>, which is empty when the body is a form. Under the
  secret \<open>s3cr3t\<close>, the form request with body \<open>hello\<close> and the digest of that body in
  its signature header is answered 403 as a mismatch, and no command is started.
\<close>

theorem signed_form_body_rejected:
  "''sha1=21fbddf58a7c80f7ba7b0cd12b9783da067fd4e2'' =
     ''sha1='' @ hexdigest (bytes_of ''s3cr3t'')
        (body (signed_form_request ''sha1=21fbddf58a7c80f7ba7b0cd12b9783da067fd4e2''
           (bytes_of ''hello''))) \<and>
   webhook (bytes_of ''s3cr3t'')
     (signed_form_request ''sha1=21fbddf58a7c80f7ba7b0cd12b9783da067fd4e2'' (bytes_of ''hello''))
     run_ok =
   ([Log INFO ''Received a request on /webhook'',
     Log ERROR ''Error: Signature mismatch.''], Abort 403)"
  by (simp add: webhook_def signed_form_request_def hexdigest_s3cr3t_hello
      hexdigest_s3cr3t_empty compare_digest_def is_ascii_def)

text \<open>
  C5. For a request that passes signature verification, if the update command returns a
  non-zero exit code, the handler answers 500 and the restart command is never started:
  the update is the only command of the trace.
\<close>

theorem failed_update_skips_restart:
  assumes "headers request ''X-Hub-Signature'' = Some (''sha1='' @ hexdigest secret (data request))"
    and "run git_pull_cmd = Inr p" and "returncode p \<noteq> 0"
  shows "snd (webhook secret request run) = Abort 500 \<and>
         actions_invoked (fst (webhook secret request run)) = [git_pull_cmd] \<and>
         Run restart_cmd \<notin> set (fst (webhook secret request run))"
proof -
  from assms(1) have "signature_matches secret request"
    by (simp add: signature_matches_def)
  then have "webhook secret request run = deploy [Log INFO ''Received a request on /webhook''] run"
    by (rule webhook_verified)
  with deploy_pull_failed [of run p INFO] assms(2,3) show ?thesis by simp
qed

theorem failed_update_skips_restart_witness:
  "snd (webhook (bytes_of ''s3cr3t'')
          (signed_request ''sha1=21fbddf58a7c80f7ba7b0cd12b9783da067fd4e2'' (bytes_of ''hello''))
          run_pull_fails) = Abort 500 \<and>
   actions_invoked (fst (webhook (bytes_of ''s3cr3t'')
          (signed_request ''sha1=21fbddf58a7c80f7ba7b0cd12b9783da067fd4e2'' (bytes_of ''hello''))
          run_pull_fails)) = [git_pull_cmd] \<and>
   Run restart_cmd \<notin> set (fst (webhook (bytes_of ''s3cr3t'')
          (signed_request ''sha1=21fbddf58a7c80f7ba7b0cd12b9783da067fd4e2'' (bytes_of ''hello''))
          run_pull_fails))"
  using failed_update_skips_restart
    [of "signed_request ''sha1=21fbddf58a7c80f7ba7b0cd12b9783da067fd4e2'' (bytes_of ''hello'')"
        "bytes_of ''s3cr3t''" run_pull_fails
        "\<lparr>returncode = 1, stdout = '''', stderr = ''fatal''\<rparr>"]
  by (simp add: signed_request_def run_pull_fails_def hexdigest_s3cr3t_hello)

text \<open>
  C6. A request that the handler rejects with 403 or 501 (a missing signature header, an
  unsupported algorithm tag, a signature mismatch) starts neither external command: its
  trace holds log records only.
\<close>

theorem rejected_request_invokes_no_action:
  assumes "snd (webhook secret request run) = Abort 403 \<or>
           snd (webhook secret request run) = Abort 501"
  shows "actions_invoked (fst (webhook secret request run)) = []"
  using assms webhook_cases [of secret request run]
    deploy_not_rejection [of "[Log INFO ''Received a request on /webhook'']" run]
  by auto

theorem rejected_request_invokes_no_action_witness:
  "snd (webhook (bytes_of ''s3cr3t'') \<lparr>headers = Map.empty, mimetype = ''application/json'', body = bytes_of ''hello''\<rparr> run_ok)
     = Abort 403 \<and>
   actions_invoked (fst (webhook (bytes_of ''s3cr3t'')
     \<lparr>headers = Map.empty, mimetype = ''application/json'', body = bytes_of ''hello''\<rparr> run_ok)) = [] \<and>
   snd (webhook (bytes_of ''s3cr3t'')
     (signed_request ''sha256=21fbddf58a7c80f7ba7b0cd12b9783da067fd4e2'' (bytes_of ''hello''))
     run_ok) = Abort 501 \<and>
   actions_invoked (fst (webhook (bytes_of ''s3cr3t'')
     (signed_request ''sha256=21fbddf58a7c80f7ba7b0cd12b9783da067fd4e2'' (bytes_of ''hello''))
     run_ok)) = [] \<and>
   snd (webhook (bytes_of ''s3cr3t'')
     (signed_request ''sha1=0000000000000000000000000000000000000000'' (bytes_of ''hello''))
     run_ok) = Abort 403 \<and>
   actions_invoked (fst (webhook (bytes_of ''s3cr3t'')
     (signed_request ''sha1=0000000000000000000000000000000000000000'' (bytes_of ''hello''))
     run_ok)) = []"
proof -
  let ?S = "bytes_of ''s3cr3t''"
  let ?e = "\<lparr>headers = Map.empty, mimetype = ''application/json'', body = bytes_of ''hello''\<rparr>"
  let ?b = "signed_request ''sha256=21fbddf58a7c80f7ba7b0cd12b9783da067fd4e2'' (bytes_of ''hello'')"
  let ?c = "signed_request ''sha1=0000000000000000000000000000000000000000'' (bytes_of ''hello'')"
  have e: "snd (webhook ?S ?e run_ok) = Abort 403"
    by (simp add: webhook_def)
  have b: "snd (webhook ?S ?b run_ok) = Abort 501"
    by (simp add: webhook_def signed_request_def)
  have c: "snd (webhook ?S ?c run_ok) = Abort 403"
    by (simp add: webhook_def signed_request_def hexdigest_s3cr3t_hello compare_digest_def
        is_ascii_def)
  from e b c show ?thesis
    using rejected_request_invokes_no_action [of ?S ?e run_ok]
      rejected_request_invokes_no_action [of ?S ?b run_ok]
      rejected_request_invokes_no_action [of ?S ?c run_ok]
    by simp
qed

text \<open>
  C7. A request whose signature header is present but does not hold exactly one \<open>=\<close>
  makes the tuple assignment of the split raise ValueError, which nothing catches: the
  handler ends with that exception after the receipt log record, and with none of its
  rejection responses.
\<close>

theorem malformed_signature_header_raises:
  assumes "headers request ''X-Hub-Signature'' = Some h" and "count_list h CHR ''='' \<noteq> 1"
  shows "webhook secret request run =
           ([Log INFO ''Received a request on /webhook''], Uncaught ValueError)"
  using assms by (rule webhook_malformed)

theorem malformed_signature_header_raises_witness:
  "webhook SECRET (signed_request ''sha1=abc=def'' (bytes_of ''hello'')) run_ok =
     ([Log INFO ''Received a request on /webhook''], Uncaught ValueError) \<and>
   webhook SECRET (signed_request ''sha1'' (bytes_of ''hello'')) run_ok =
     ([Log INFO ''Received a request on /webhook''], Uncaught ValueError)"
  using malformed_signature_header_raises
      [of "signed_request ''sha1=abc=def'' (bytes_of ''hello'')" "''sha1=abc=def''" SECRET run_ok]
    malformed_signature_header_raises
      [of "signed_request ''sha1'' (bytes_of ''hello'')" "''sha1''" SECRET run_ok]
  by (simp add: signed_request_def)

lemma ascii_lower_hex:
  assumes "ascii_lower c \<in> set ''0123456789abcdef''"
  shows "(of_char c :: nat) < 128 \<and> c \<noteq> CHR ''=''"
proof (cases "map_of (zip ''ABCDEFGHIJKLMNOPQRSTUVWXYZ'' ''abcdefghijklmnopqrstuvwxyz'') c")
  case None
  have "c \<in> set ''0123456789abcdef''"
    using assms unfolding ascii_lower_def None by simp
  then show ?thesis by auto
next
  case (Some l)
  then have "(c, l) \<in> set (zip ''ABCDEFGHIJKLMNOPQRSTUVWXYZ'' ''abcdefghijklmnopqrstuvwxyz'')"
    by (rule map_of_SomeD)
  then have "c \<in> set ''ABCDEFGHIJKLMNOPQRSTUVWXYZ''"
    by (rule set_zip_leftD)
  then show ?thesis by auto
qed

lemma lowered_hexdigest:
  assumes "map ascii_lower D = hexdigest S m"
  shows "is_ascii D \<and> CHR ''='' \<notin> set D"
proof -
  have "\<forall>c\<in>set D. ascii_lower c \<in> set ''0123456789abcdef''"
    using hexdigest_chars [of S m] assms [symmetric] by auto
  then have "\<forall>c\<in>set D. (of_char c :: nat) < 128 \<and> c \<noteq> CHR ''=''"
    using ascii_lower_hex by blast
  then show ?thesis by (auto simp: is_ascii_def list_all_iff)
qed

text \<open>
  C8. The digest of the header is compared for equality with the lowercase hex encoding
  of the HMAC-SHA1: a header \<open>sha1=D\<close> where \<open>D\<close> spells the correct digest with at
  least one uppercase letter (lowering \<open>D\<close> gives the digest, \<open>D\<close> itself is not the
  digest) is rejected as a mismatch with 403.
\<close>

theorem uppercase_digest_rejected:
  assumes "headers request ''X-Hub-Signature'' = Some (''sha1='' @ D)"
    and "map ascii_lower D = hexdigest secret (data request)"
    and "D \<noteq> hexdigest secret (data request)"
  shows "webhook secret request run =
           ([Log INFO ''Received a request on /webhook'',
             Log ERROR ''Error: Signature mismatch.''], Abort 403)"
proof -
  from lowered_hexdigest [OF assms(2)] have a: "is_ascii D" and e: "CHR ''='' \<notin> set D"
    by simp_all
  from e have s: "split_on CHR ''='' (''sha1='' @ D) = [''sha1'', D]"
    using split_on_once [of "CHR ''=''" "''sha1''" D] by simp
  show ?thesis
    by (rule webhook_mismatch [OF assms(1) s a assms(3)])
qed

theorem uppercase_digest_rejected_witness:
  "webhook (bytes_of ''s3cr3t'')
     (signed_request ''sha1=21FBDDF58A7C80F7BA7B0CD12B9783DA067FD4E2'' (bytes_of ''hello''))
     run_ok =
   ([Log INFO ''Received a request on /webhook'',
     Log ERROR ''Error: Signature mismatch.''], Abort 403)"
  using uppercase_digest_rejected
    [of "signed_request ''sha1=21FBDDF58A7C80F7BA7B0CD12B9783DA067FD4E2'' (bytes_of ''hello'')"
        "''21FBDDF58A7C80F7BA7B0CD12B9783DA067FD4E2''" "bytes_of ''s3cr3t''" run_ok]
  by (simp add: signed_request_def hexdigest_s3cr3t_hello ascii_lower_def)

text \<open>
  C9. Of the headers, the handler consults the one named \<open>X-Hub-Signature\<close> only: two
  requests with the same body that agree on it get the same result, whatever their other
  headers. So a request without it is rejected with 403 exactly as a request with no
  header at all, also when another header, such as \<open>X-Hub-Signature-256\<close>, carries a
  correct digest.
\<close>

theorem only_hub_signature_consulted:
  "(headers r ''X-Hub-Signature'' = headers r' ''X-Hub-Signature'' \<and> data r = data r' \<longrightarrow>
      webhook secret r run = webhook secret r' run) \<and>
   (headers r ''X-Hub-Signature'' = None \<longrightarrow>
      webhook secret r run = webhook secret \<lparr>headers = Map.empty, mimetype = mimetype r, body = body r\<rparr> run \<and>
      snd (webhook secret r run) = Abort 403)"
proof (intro conjI impI)
  assume "headers r ''X-Hub-Signature'' = headers r' ''X-Hub-Signature'' \<and> data r = data r'"
  then have h: "headers r ''X-Hub-Signature'' = headers r' ''X-Hub-Signature''"
    and d: "data r = data r'" by simp_all
  show "webhook secret r run = webhook secret r' run"
    unfolding webhook_def h d by (rule refl)
next
  assume "headers r ''X-Hub-Signature'' = None"
  then show "webhook secret r run = webhook secret \<lparr>headers = Map.empty, mimetype = mimetype r, body = body r\<rparr> run"
    by (simp add: webhook_def)
next
  assume "headers r ''X-Hub-Signature'' = None"
  then show "snd (webhook secret r run) = Abort 403"
    by (simp add: webhook_def)
qed

theorem only_hub_signature_consulted_witness:
  "webhook (bytes_of ''s3cr3t'')
     \<lparr>headers = [''X-Hub-Signature-256'' \<mapsto> ''sha1=21fbddf58a7c80f7ba7b0cd12b9783da067fd4e2''],
      mimetype = ''application/json'', body = bytes_of ''hello''\<rparr> run_ok =
   webhook (bytes_of ''s3cr3t'') \<lparr>headers = Map.empty, mimetype = ''application/json'', body = bytes_of ''hello''\<rparr> run_ok \<and>
   snd (webhook (bytes_of ''s3cr3t'')
     \<lparr>headers = [''X-Hub-Signature-256'' \<mapsto> ''sha1=21fbddf58a7c80f7ba7b0cd12b9783da067fd4e2''],
      mimetype = ''application/json'', body = bytes_of ''hello''\<rparr> run_ok) = Abort 403"
  using only_hub_signature_consulted
    [of "\<lparr>headers = [''X-Hub-Signature-256'' \<mapsto> ''sha1=21fbddf58a7c80f7ba7b0cd12b9783da067fd4e2''],
          mimetype = ''application/json'', body = bytes_of ''hello''\<rparr>"
        "\<lparr>headers = Map.empty, mimetype = ''application/json'', body = bytes_of ''hello''\<rparr>" "bytes_of ''s3cr3t''" run_ok]
  by (simp add: webhook_missing)

lemma tag_of_split:
  assumes "split_on CHR ''='' h = [tag, d]"
  shows "takeWhile (\<lambda>c. c \<noteq> CHR ''='') h = tag"
proof -
  from split_on_two [OF assms] have h: "h = tag @ CHR ''='' # d" and t: "CHR ''='' \<notin> set tag"
    by simp_all
  from t have "takeWhile (\<lambda>c. c \<noteq> CHR ''='') (tag @ CHR ''='' # d) = tag"
    by (induction tag) auto
  with h show ?thesis by simp
qed

text \<open>
  A request whose signature does not match ends in one of five ways, none of which depends
  on the secret, the body or the commands.
\<close>

lemma webhook_unverified:
  assumes "\<not> signature_matches S r"
  shows "webhook S r run =
     (case headers r ''X-Hub-Signature'' of
        None \<Rightarrow> ([Log INFO ''Received a request on /webhook'',
                   Log ERROR ''Error: No signature found in the request headers.''], Abort 403)
      | Some h \<Rightarrow>
         (case unpack2 (split_on CHR ''='' h) of
            Inl e \<Rightarrow> ([Log INFO ''Received a request on /webhook''], Uncaught e)
          | Inr (tag, d) \<Rightarrow>
              if tag \<noteq> ''sha1'' then
                ([Log INFO ''Received a request on /webhook'',
                  Log ERROR (''Error: Unsupported SHA type '' @ tag @ ''.'')], Abort 501)
              else if is_ascii d then
                ([Log INFO ''Received a request on /webhook'',
                  Log ERROR ''Error: Signature mismatch.''], Abort 403)
              else ([Log INFO ''Received a request on /webhook''], Uncaught TypeError)))"
proof (cases "headers r ''X-Hub-Signature''")
  case None
  then show ?thesis by (simp add: webhook_missing)
next
  case (Some h)
  show ?thesis
  proof (cases "unpack2 (split_on CHR ''='' h)")
    case (Inl e)
    with Some show ?thesis by (simp add: webhook_def)
  next
    case (Inr p)
    then obtain tag d where p: "p = (tag, d)" and s: "split_on CHR ''='' h = [tag, d]"
      by (cases p) (simp add: unpack2_ok)
    show ?thesis
    proof (cases "tag = ''sha1''")
      case tag: True
      have ne: "d \<noteq> hexdigest S (data r)"
        using assms Some s tag by (auto simp: signature_matches_iff)
      show ?thesis
      proof (cases "is_ascii d")
        case True
        with webhook_mismatch [OF Some s [unfolded tag] True ne] Some Inr p tag
        show ?thesis by simp
      next
        case asc: False
        with webhook_non_ascii [OF Some s [unfolded tag] asc] Some Inr p tag
        show ?thesis by simp
      qed
    next
      case ntag: False
      with webhook_unsupported [OF Some s ntag] Some Inr p show ?thesis by simp
    qed
  qed
qed

lemma deploy_messages_allowed:
  "\<forall>m\<in>set (messages (fst (deploy [Log INFO ''Received a request on /webhook''] run))).
     allowed_message r run m"
  by (simp add: deploy_def allowed_message_def fixed_messages_def Let_def split: sum.splits)

lemma unverified_messages_allowed:
  assumes "\<not> signature_matches S r"
  shows "\<forall>m\<in>set (messages (fst (webhook S r run))). allowed_message r run m"
proof (cases "headers r ''X-Hub-Signature''")
  case None
  then show ?thesis
    by (simp add: webhook_missing allowed_message_def fixed_messages_def)
next
  case (Some h)
  show ?thesis
  proof (cases "unpack2 (split_on CHR ''='' h)")
    case (Inl e)
    with Some show ?thesis
      by (simp add: webhook_unverified [OF assms] allowed_message_def fixed_messages_def)
  next
    case (Inr p)
    then obtain tag d where p: "p = (tag, d)" and s: "split_on CHR ''='' h = [tag, d]"
      by (cases p) (simp add: unpack2_ok)
    from tag_of_split [OF s] Some Inr p show ?thesis
      by (simp add: webhook_unverified [OF assms] allowed_message_def fixed_messages_def)
  qed
qed

text \<open>
  No log record is computed from the secret or from the digest: two calls whose requests
  agree on the signature header and whose signatures both match or both do not match,
  under any two secrets and bodies, write the same trace. Every message logged is one of
  the fixed texts, the text naming the algorithm tag of the request, or the captured
  output of an external command.
\<close>

lemma log_independent_of_secret_and_digest:
  assumes "headers r1 ''X-Hub-Signature'' = headers r2 ''X-Hub-Signature''"
    and "signature_matches S1 r1 \<longleftrightarrow> signature_matches S2 r2"
  shows "fst (webhook S1 r1 run) = fst (webhook S2 r2 run) \<and>
         (\<forall>m\<in>set (messages (fst (webhook S1 r1 run))). allowed_message r1 run m)"
proof (cases "signature_matches S1 r1")
  case True
  with assms(2) have "signature_matches S2 r2" by simp
  with True show ?thesis
    by (simp add: webhook_verified deploy_messages_allowed)
next
  case False
  with assms(2) have "\<not> signature_matches S2 r2" by simp
  with False assms(1) show ?thesis
    by (simp add: webhook_unverified unverified_messages_allowed)
qed

lemma hexdigest_not_short:
  "length d \<noteq> 40 \<Longrightarrow> hexdigest S m \<noteq> d \<and> d \<noteq> hexdigest S m"
  using length_hexdigest [of S m] by auto
















text \<open>
  C3. The status mapping (missing header 403, unsupported tag 501, digest mismatch 403,
  failed command 500, success 200) does not hold for every request: a header with the
  unsupported tag \<open>md5\<close> and two \<open>=\<close> ends in an uncaught ValueError, and a mismatching
  digest with a character outside ASCII ends in an uncaught TypeError, so that the client
  sees 500 where the mapping says 501 and 403.
\<close>

theorem status_mapping_misses_raised_exceptions:
  "snd (webhook SECRET (signed_request ''md5=a=b'' (bytes_of ''hello'')) run_ok)
     = Uncaught ValueError \<and>
   status (snd (webhook SECRET (signed_request ''md5=a=b'' (bytes_of ''hello'')) run_ok)) = 500 \<and>
   snd (webhook SECRET (signed_request (''sha1='' @ [CHR 0xE1]) (bytes_of ''hello'')) run_ok)
     = Uncaught TypeError \<and>
   status (snd (webhook SECRET (signed_request (''sha1='' @ [CHR 0xE1]) (bytes_of ''hello''))
     run_ok)) = 500"
  by (simp add: webhook_def signed_request_def compare_digest_def is_ascii_def status_def)

text \<open>
  C4. A digest that differs from the correct one is not always rejected with 403. Under
  the secret \<open>s3cr3t\<close> and the body \<open>hello\<close>, the correct digest with the top bit of its
  first character flipped (\<open>2\<close>, 0x32, becomes 0xB2) makes the comparison raise
  TypeError, and the digest \<open>abc=def\<close> makes the split raise ValueError: both differ
  from the correct digest and the client sees 500.
\<close>

theorem tampered_digest_raises_instead_of_403:
  "CHR 0xB2 # ''1fbddf58a7c80f7ba7b0cd12b9783da067fd4e2''
     \<noteq> hexdigest (bytes_of ''s3cr3t'') (bytes_of ''hello'') \<and>
   webhook (bytes_of ''s3cr3t'')
     (signed_request (''sha1='' @ CHR 0xB2 # ''1fbddf58a7c80f7ba7b0cd12b9783da067fd4e2'')
        (bytes_of ''hello'')) run_ok
     = ([Log INFO ''Received a request on /webhook''], Uncaught TypeError) \<and>
   status (snd (webhook (bytes_of ''s3cr3t'')
     (signed_request (''sha1='' @ CHR 0xB2 # ''1fbddf58a7c80f7ba7b0cd12b9783da067fd4e2'')
        (bytes_of ''hello'')) run_ok)) = 500 \<and>
   ''abc=def'' \<noteq> hexdigest (bytes_of ''s3cr3t'') (bytes_of ''hello'') \<and>
   webhook (bytes_of ''s3cr3t'') (signed_request ''sha1=abc=def'' (bytes_of ''hello'')) run_ok
     = ([Log INFO ''Received a request on /webhook''], Uncaught ValueError) \<and>
   status (snd (webhook (bytes_of ''s3cr3t'')
     (signed_request ''sha1=abc=def'' (bytes_of ''hello'')) run_ok)) = 500"
  by (simp add: webhook_def signed_request_def compare_digest_def is_ascii_def status_def
      hexdigest_s3cr3t_hello)

end
